theory Spec2Isabelle
  imports Complex_Main "HOL-Library.Signed_Division"
begin

section \<open>Floating-point values of the template type T\<close>

text \<open>
  The evaluators of \<^verbatim>\<open>include/xsf/mathieu.h\<close> are templates over a floating-point
  type \<open>T\<close> (float or double). A value of \<open>T\<close> is modelled by its IEEE-754 class:
  not-a-number, an infinity, or a finite number carried as the rational it denotes.
  The two zeros and the payload of a NaN are not distinguished.
  Only the operations the header uses are defined. Comparison, negation, \<open>floor\<close>
  and the conversion of a small int are exact in IEEE-754 arithmetic and are written out;
  an operation that rounds takes the rounding of \<open>T\<close> as a parameter.
\<close>

datatype fp = NaN | PInf | NInf | Fin rat

text \<open>\<^verbatim>\<open>a < b\<close>: false as soon as an operand is NaN.\<close>

fun flt :: "fp \<Rightarrow> fp \<Rightarrow> bool" where
  "flt NaN _ = False"
| "flt _ NaN = False"
| "flt PInf _ = False"
| "flt _ NInf = False"
| "flt NInf _ = True"
| "flt _ PInf = True"
| "flt (Fin a) (Fin b) = (a < b)"

text \<open>\<^verbatim>\<open>a == b\<close>: NaN equals nothing, itself included.\<close>

fun feq :: "fp \<Rightarrow> fp \<Rightarrow> bool" where
  "feq NaN _ = False"
| "feq _ NaN = False"
| "feq a b = (a = b)"

text \<open>\<^verbatim>\<open>a <= b\<close> and \<^verbatim>\<open>a != b\<close>.\<close>

definition fle :: "fp \<Rightarrow> fp \<Rightarrow> bool" where
  "fle a b = (flt a b \<or> feq a b)"

definition fne :: "fp \<Rightarrow> fp \<Rightarrow> bool" where
  "fne a b = (\<not> feq a b)"

text \<open>Unary minus.\<close>

fun fneg :: "fp \<Rightarrow> fp" where
  "fneg NaN = NaN"
| "fneg PInf = NInf"
| "fneg NInf = PInf"
| "fneg (Fin r) = Fin (- r)"

text \<open>\<^verbatim>\<open>floor(m)\<close>: NaN and the infinities are returned unchanged.\<close>

fun floor_fp :: "fp \<Rightarrow> fp" where
  "floor_fp (Fin r) = Fin (of_int \<lfloor>r\<rfloor>)"
| "floor_fp v = v"

text \<open>The conversion of an int to \<open>T\<close> (the literals 0, 1, 90 and the sign factor).\<close>

definition fp_of_int :: "int \<Rightarrow> fp" where
  "fp_of_int k = Fin (of_int k)"

text \<open>
  \<^verbatim>\<open>sgn * f\<close> with an int \<open>sgn\<close>: the int is converted to \<open>T\<close> and multiplied. The product
  below is the exact one; the header forms it with a factor 1 or -1 only, where the
  IEEE-754 product is exact.
\<close>

fun imul :: "int \<Rightarrow> fp \<Rightarrow> fp" where
  "imul k NaN = NaN"
| "imul k PInf = (if 0 < k then PInf else if k < 0 then NInf else NaN)"
| "imul k NInf = (if 0 < k then NInf else if k < 0 then PInf else NaN)"
| "imul k (Fin r) = Fin (of_int k * r)"

text \<open>
  \<^verbatim>\<open>a - b\<close> in \<open>T\<close>: the exact difference of two finite operands is rounded into \<open>T\<close>
  by \<open>rd\<close>, the rounding of the type (it depends on the precision).
\<close>

fun fsub :: "(rat \<Rightarrow> fp) \<Rightarrow> fp \<Rightarrow> fp \<Rightarrow> fp" where
  "fsub rd NaN _ = NaN"
| "fsub rd _ NaN = NaN"
| "fsub rd PInf PInf = NaN"
| "fsub rd NInf NInf = NaN"
| "fsub rd PInf _ = PInf"
| "fsub rd NInf _ = NInf"
| "fsub rd (Fin a) PInf = NInf"
| "fsub rd (Fin a) NInf = PInf"
| "fsub rd (Fin a) (Fin b) = rd (a - b)"

text \<open>
  \<^verbatim>\<open>(int)m\<close>: the value is truncated towards zero. The conversion is defined only when
  the truncated value fits the type int (32 bits); for every other operand, NaN and
  the infinities included, the behaviour of the program is undefined, which is the
  result \<open>None\<close>.
\<close>

definition INT_MAX :: int where
  "INT_MAX = 2147483647"

definition INT_MIN :: int where
  "INT_MIN = - 2147483648"

definition trunc :: "rat \<Rightarrow> int" where
  "trunc r = (if 0 \<le> r then \<lfloor>r\<rfloor> else \<lceil>r\<rceil>)"

fun cast_int :: "fp \<Rightarrow> int option" where
  "cast_int (Fin r) =
     (if INT_MIN \<le> trunc r \<and> trunc r \<le> INT_MAX then Some (trunc r) else None)"
| "cast_int _ = None"

section \<open>The error channel and the numerical routines\<close>

datatype sf_error = SF_ERROR_DOMAIN | SF_ERROR_MEMORY | SF_ERROR_OTHER

type_synonym errlog = "(string \<times> sf_error) list"

text \<open>
  Modelled from the spec: \<^verbatim>\<open>set_error\<close> is declared in \<^verbatim>\<open>error.h\<close>, which is not
  among the sources. The spec describes the channel as a write-only record of
  (function name, error kind) pairs; the model appends the pair to the log of the
  errors signalled so far.
\<close>

definition set_error :: "string \<Rightarrow> sf_error \<Rightarrow> errlog \<Rightarrow> errlog" where
  "set_error name code lg = lg @ [(name, code)]"

text \<open>
  The status of a routine of \<^verbatim>\<open>specfun/specfun.h\<close>. The header names \<open>OK\<close> and
  \<open>NoMemory\<close>; every other enumerator is \<open>OtherStatus\<close>.
\<close>

datatype Status = OK | NoMemory | OtherStatus nat

text \<open>
  Modelled from the spec: the routines \<^verbatim>\<open>specfun::cva2\<close>, \<^verbatim>\<open>specfun::mtu0\<close> and
  \<^verbatim>\<open>specfun::mtu12\<close> are not among the sources. They are parameters of the model:
  functions of their arguments, as the spec has every evaluation (stateless per call),
  returning the status and the values written through the output pointers. \<open>rnd\<close> is
  the rounding of the type \<open>T\<close>.
\<close>

record env =
  rnd :: "rat \<Rightarrow> fp"
  cva2 :: "int \<Rightarrow> int \<Rightarrow> fp \<Rightarrow> fp"
  mtu0 :: "int \<Rightarrow> int \<Rightarrow> fp \<Rightarrow> fp \<Rightarrow> Status \<times> fp \<times> fp"
  mtu12 :: "int \<Rightarrow> int \<Rightarrow> int \<Rightarrow> fp \<Rightarrow> fp \<Rightarrow> Status \<times> (fp \<times> fp) \<times> (fp \<times> fp)"

section \<open>Characteristic values\<close>

text \<open>
  \<^verbatim>\<open>cem_cva\<close> and \<^verbatim>\<open>sem_cva\<close>. The result is the returned value and the error log,
  or \<open>None\<close> when the conversion \<^verbatim>\<open>(int)m\<close> is undefined.
\<close>

function cem_cva :: "env \<Rightarrow> fp \<Rightarrow> fp \<Rightarrow> errlog \<Rightarrow> (fp \<times> errlog) option"
  and sem_cva :: "env \<Rightarrow> fp \<Rightarrow> fp \<Rightarrow> errlog \<Rightarrow> (fp \<times> errlog) option" where
  "cem_cva e m q s =
     (if flt m (fp_of_int 0) \<or> fne m (floor_fp m)
      then Some (NaN, set_error ''mathieu_a'' SF_ERROR_DOMAIN s)
      else case cast_int m of
        None \<Rightarrow> None
      | Some int_m \<Rightarrow>
          if flt q (fp_of_int 0)
          then (if int_m smod 2 = 0 then cem_cva e m (fneg q) s else sem_cva e m (fneg q) s)
          else Some (cva2 e (if int_m smod 2 \<noteq> 0 then 2 else 1) int_m q, s))"
| "sem_cva e m q s =
     (if fle m (fp_of_int 0) \<or> fne m (floor_fp m)
      then Some (NaN, set_error ''mathieu_b'' SF_ERROR_DOMAIN s)
      else case cast_int m of
        None \<Rightarrow> None
      | Some int_m \<Rightarrow>
          if flt q (fp_of_int 0)
          then (if int_m smod 2 = 0 then sem_cva e m (fneg q) s else cem_cva e m (fneg q) s)
          else Some (cva2 e (if int_m smod 2 \<noteq> 0 then 3 else 4) int_m q, s))"
  by pat_completeness auto
termination
  by (relation "measure (\<lambda>c. case c of
        Inl (e, m, q, s) \<Rightarrow> (if flt q (Fin 0) then 1 else 0)
      | Inr (e, m, q, s) \<Rightarrow> (if flt q (Fin 0) then 1 else 0))")
     (auto simp: fp_of_int_def elim!: flt.elims)

section \<open>Angular functions\<close>

text \<open>
  \<^verbatim>\<open>cem\<close> and \<^verbatim>\<open>sem\<close>. Every path assigns both output parameters \<open>csf\<close> and \<open>csd\<close>,
  so the result is the pair of values they hold on return, with the error log.
\<close>

function cem :: "env \<Rightarrow> fp \<Rightarrow> fp \<Rightarrow> fp \<Rightarrow> errlog \<Rightarrow> ((fp \<times> fp) \<times> errlog) option"
  and sem :: "env \<Rightarrow> fp \<Rightarrow> fp \<Rightarrow> fp \<Rightarrow> errlog \<Rightarrow> ((fp \<times> fp) \<times> errlog) option" where
  "cem e m q x s =
     (if flt m (fp_of_int 0) \<or> fne m (floor_fp m)
      then Some ((NaN, NaN), set_error ''mathieu_cem'' SF_ERROR_DOMAIN s)
      else case cast_int m of
        None \<Rightarrow> None
      | Some int_m \<Rightarrow>
          if flt q (fp_of_int 0)
          then (if int_m smod 2 = 0
                then (case cem e m (fneg q) (fsub (rnd e) (fp_of_int 90) x) s of
                        None \<Rightarrow> None
                      | Some ((f, d), s') \<Rightarrow>
                          Some ((imul (if (int_m sdiv 2) smod 2 = 0 then 1 else - 1) f,
                                 imul (- (if (int_m sdiv 2) smod 2 = 0 then 1 else - 1)) d), s'))
                else (case sem e m (fneg q) (fsub (rnd e) (fp_of_int 90) x) s of
                        None \<Rightarrow> None
                      | Some ((f, d), s') \<Rightarrow>
                          Some ((imul (if (int_m sdiv 2) smod 2 = 0 then 1 else - 1) f,
                                 imul (- (if (int_m sdiv 2) smod 2 = 0 then 1 else - 1)) d), s')))
          else (case mtu0 e 1 int_m q x of
                  (status, csf, csd) \<Rightarrow>
                    if status \<noteq> OK
                    then Some ((NaN, NaN),
                           set_error ''mathieu_cem''
                             (if status = NoMemory then SF_ERROR_MEMORY else SF_ERROR_OTHER) s)
                    else Some ((csf, csd), s)))"
| "sem e m q x s =
     (if flt m (fp_of_int 0) \<or> fne m (floor_fp m)
      then Some ((NaN, NaN), set_error ''mathieu_sem'' SF_ERROR_DOMAIN s)
      else case cast_int m of
        None \<Rightarrow> None
      | Some int_m \<Rightarrow>
          if int_m = 0 then Some ((fp_of_int 0, fp_of_int 0), s)
          else if flt q (fp_of_int 0)
          then (if int_m smod 2 = 0
                then (case sem e m (fneg q) (fsub (rnd e) (fp_of_int 90) x) s of
                        None \<Rightarrow> None
                      | Some ((f, d), s') \<Rightarrow>
                          Some ((imul (if (int_m sdiv 2) smod 2 = 0 then - 1 else 1) f,
                                 imul (- (if (int_m sdiv 2) smod 2 = 0 then - 1 else 1)) d), s'))
                else (case cem e m (fneg q) (fsub (rnd e) (fp_of_int 90) x) s of
                        None \<Rightarrow> None
                      | Some ((f, d), s') \<Rightarrow>
                          Some ((imul (if (int_m sdiv 2) smod 2 = 0 then 1 else - 1) f,
                                 imul (- (if (int_m sdiv 2) smod 2 = 0 then 1 else - 1)) d), s')))
          else (case mtu0 e 2 int_m q x of
                  (status, csf, csd) \<Rightarrow>
                    if status \<noteq> OK
                    then Some ((NaN, NaN),
                           set_error ''mathieu_sem''
                             (if status = NoMemory then SF_ERROR_MEMORY else SF_ERROR_OTHER) s)
                    else Some ((csf, csd), s)))"
  by pat_completeness auto
termination
  by (relation "measure (\<lambda>c. case c of
        Inl (e, m, q, x, s) \<Rightarrow> (if flt q (Fin 0) then 1 else 0)
      | Inr (e, m, q, x, s) \<Rightarrow> (if flt q (Fin 0) then 1 else 0))")
     (auto simp: fp_of_int_def elim!: flt.elims)

section \<open>Modified (radial) functions\<close>

text \<open>
  \<^verbatim>\<open>mcm1\<close>, \<^verbatim>\<open>msm1\<close>, \<^verbatim>\<open>mcm2\<close> and \<^verbatim>\<open>msm2\<close>. The routine \<^verbatim>\<open>mtu12\<close> writes two pairs; the
  functions of the first kind return the first pair and drop the second, those of the
  second kind return the second pair.
\<close>

definition mcm1 :: "env \<Rightarrow> fp \<Rightarrow> fp \<Rightarrow> fp \<Rightarrow> errlog \<Rightarrow> ((fp \<times> fp) \<times> errlog) option" where
  "mcm1 e m q x s =
     (if flt m (fp_of_int 0) \<or> fne m (floor_fp m) \<or> flt q (fp_of_int 0)
      then Some ((NaN, NaN), set_error ''mathieu_modcem1'' SF_ERROR_DOMAIN s)
      else case cast_int m of
        None \<Rightarrow> None
      | Some int_m \<Rightarrow>
          (case mtu12 e 1 1 int_m q x of
             (status, (f1r, d1r), (f2r, d2r)) \<Rightarrow>
               if status \<noteq> OK
               then Some ((NaN, NaN),
                      set_error ''mathieu_modcem1''
                        (if status = NoMemory then SF_ERROR_MEMORY else SF_ERROR_OTHER) s)
               else Some ((f1r, d1r), s)))"

definition msm1 :: "env \<Rightarrow> fp \<Rightarrow> fp \<Rightarrow> fp \<Rightarrow> errlog \<Rightarrow> ((fp \<times> fp) \<times> errlog) option" where
  "msm1 e m q x s =
     (if flt m (fp_of_int 1) \<or> fne m (floor_fp m) \<or> flt q (fp_of_int 0)
      then Some ((NaN, NaN), set_error ''mathieu_modsem1'' SF_ERROR_DOMAIN s)
      else case cast_int m of
        None \<Rightarrow> None
      | Some int_m \<Rightarrow>
          (case mtu12 e 2 1 int_m q x of
             (status, (f1r, d1r), (f2r, d2r)) \<Rightarrow>
               if status \<noteq> OK
               then Some ((NaN, NaN),
                      set_error ''mathieu_modsem1''
                        (if status = NoMemory then SF_ERROR_MEMORY else SF_ERROR_OTHER) s)
               else Some ((f1r, d1r), s)))"

definition mcm2 :: "env \<Rightarrow> fp \<Rightarrow> fp \<Rightarrow> fp \<Rightarrow> errlog \<Rightarrow> ((fp \<times> fp) \<times> errlog) option" where
  "mcm2 e m q x s =
     (if flt m (fp_of_int 0) \<or> fne m (floor_fp m) \<or> flt q (fp_of_int 0)
      then Some ((NaN, NaN), set_error ''mathieu_modcem2'' SF_ERROR_DOMAIN s)
      else case cast_int m of
        None \<Rightarrow> None
      | Some int_m \<Rightarrow>
          (case mtu12 e 1 2 int_m q x of
             (status, (f1r, d1r), (f2r, d2r)) \<Rightarrow>
               if status \<noteq> OK
               then Some ((NaN, NaN),
                      set_error ''mathieu_modcem2''
                        (if status = NoMemory then SF_ERROR_MEMORY else SF_ERROR_OTHER) s)
               else Some ((f2r, d2r), s)))"

definition msm2 :: "env \<Rightarrow> fp \<Rightarrow> fp \<Rightarrow> fp \<Rightarrow> errlog \<Rightarrow> ((fp \<times> fp) \<times> errlog) option" where
  "msm2 e m q x s =
     (if flt m (fp_of_int 1) \<or> fne m (floor_fp m) \<or> flt q (fp_of_int 0)
      then Some ((NaN, NaN), set_error ''mathieu_modsem2'' SF_ERROR_DOMAIN s)
      else case cast_int m of
        None \<Rightarrow> None
      | Some int_m \<Rightarrow>
          (case mtu12 e 2 2 int_m q x of
             (status, (f1r, d1r), (f2r, d2r)) \<Rightarrow>
               if status \<noteq> OK
               then Some ((NaN, NaN),
                      set_error ''mathieu_modsem2''
                        (if status = NoMemory then SF_ERROR_MEMORY else SF_ERROR_OTHER) s)
               else Some ((f2r, d2r), s)))"

section \<open>The validation harness\<close>








section \<open>Instances of the parameters\<close>

text \<open>
  Concrete instances of the absent routines, on which the theorems below are evaluated:
  a rounding that keeps the exact value, a \<open>cva2\<close> whose value shows its selector, its
  order and its parameter, and \<open>mtu0\<close>, \<open>mtu12\<close> that fail with \<open>NoMemory\<close> at order 7,
  with another status at order 9, and succeed elsewhere.
\<close>

definition sample_status :: "int \<Rightarrow> Status" where
  "sample_status m = (if m = 7 then NoMemory else if m = 9 then OtherStatus 0 else OK)"

definition sample_env :: env where
  "sample_env =
     \<lparr> rnd = Fin,
       cva2 = (\<lambda>kd m q. imul (100 * kd + m) q),
       mtu0 = (\<lambda>kf m q x. (sample_status m, imul kf q, x)),
       mtu12 = (\<lambda>kf kc m q x. (sample_status m, (Fin (of_int kf), x), (Fin (of_int kc), q))) \<rparr>"






section \<open>Orders that are integers\<close>

declare cem_cva.simps [simp del] sem_cva.simps [simp del] cem.simps [simp del] sem.simps [simp del]

text \<open>
  An order that is the integer \<open>n\<close> is the value \<open>fp_of_int n\<close>. The lemmas below
  evaluate the checks of the header on such an order.
\<close>

lemma order_not_neg: "flt (fp_of_int n) (fp_of_int 0) = (n < 0)"
  by (simp add: fp_of_int_def)

lemma order_not_pos: "fle (fp_of_int n) (fp_of_int 0) = (n \<le> 0)"
  by (auto simp: fp_of_int_def fle_def)

lemma order_lt_one: "flt (fp_of_int n) (fp_of_int 1) = (n < 1)"
  by (simp add: fp_of_int_def)

lemma order_integral: "fne (fp_of_int n) (floor_fp (fp_of_int n)) = False"
  by (simp add: fp_of_int_def fne_def)

lemma cast_order:
  "cast_int (fp_of_int n) = (if INT_MIN \<le> n \<and> n \<le> INT_MAX then Some n else None)"
  by (simp add: fp_of_int_def trunc_def)

lemma smod2_even: "0 \<le> n \<Longrightarrow> (n smod 2 = 0) = even n" for n :: int
  by (auto simp: signed_modulo_int_def sgn_if)


lemmas order_simps = order_not_neg order_not_pos order_lt_one order_integral cast_order

lemma sample_simps:
  "rnd sample_env = Fin"
  "cva2 sample_env kd m q = imul (100 * kd + m) q"
  "mtu0 sample_env kf m q x = (sample_status m, imul kf q, x)"
  "mtu12 sample_env kf kc m q x = (sample_status m, (Fin (of_int kf), x), (Fin (of_int kc), q))"
  by (simp_all add: sample_env_def)

lemmas eval_simps = sample_simps sample_status_def fp_of_int_def fle_def fne_def trunc_def
  INT_MIN_def INT_MAX_def set_error_def

section \<open>One step of the angular reflection\<close>

lemma cem_reflect:
  "\<not> flt m (fp_of_int 0) \<Longrightarrow> \<not> fne m (floor_fp m) \<Longrightarrow> cast_int m = Some k \<Longrightarrow>
   flt q (fp_of_int 0) \<Longrightarrow>
   cem e m q x s =
     map_option (\<lambda>((f, d), s'). ((imul (if (k sdiv 2) smod 2 = 0 then 1 else - 1) f,
                                imul (- (if (k sdiv 2) smod 2 = 0 then 1 else - 1)) d), s'))
       (if k smod 2 = 0 then cem e m (fneg q) (fsub (rnd e) (fp_of_int 90) x) s
        else sem e m (fneg q) (fsub (rnd e) (fp_of_int 90) x) s)"
  by (subst cem.simps) (simp split: option.splits prod.splits)

lemma sem_reflect:
  "\<not> flt m (fp_of_int 0) \<Longrightarrow> \<not> fne m (floor_fp m) \<Longrightarrow> cast_int m = Some k \<Longrightarrow>
   k \<noteq> 0 \<Longrightarrow> flt q (fp_of_int 0) \<Longrightarrow>
   sem e m q x s =
     map_option (\<lambda>((f, d), s').
         ((imul (if k smod 2 = 0 then (if (k sdiv 2) smod 2 = 0 then - 1 else 1)
                 else (if (k sdiv 2) smod 2 = 0 then 1 else - 1)) f,
           imul (- (if k smod 2 = 0 then (if (k sdiv 2) smod 2 = 0 then - 1 else 1)
                 else (if (k sdiv 2) smod 2 = 0 then 1 else - 1))) d), s'))
       (if k smod 2 = 0 then sem e m (fneg q) (fsub (rnd e) (fp_of_int 90) x) s
        else cem e m (fneg q) (fsub (rnd e) (fp_of_int 90) x) s)"
  by (subst sem.simps) (simp split: option.splits prod.splits)

section \<open>Order zero of the odd angular function\<close>

text \<open>
  Claim C9. At order 0, for every \<open>q\<close> and \<open>x\<close>, \<open>sem\<close> sets the value and the
  derivative to 0 and leaves the error log as it was, while \<open>sem_cva\<close> at order 0
  signals a domain error and returns NaN.
\<close>

theorem sem_order_zero:
  "sem e (fp_of_int 0) q x s = Some ((fp_of_int 0, fp_of_int 0), s) \<and>
   sem_cva e (fp_of_int 0) q s = Some (NaN, s @ [(''mathieu_b'', SF_ERROR_DOMAIN)])"
  by (simp add: sem.simps sem_cva.simps order_simps INT_MIN_def INT_MAX_def set_error_def)


theorem sem_order_zero_witness:
  "sem sample_env (Fin 0) (Fin (- 3)) PInf [] = Some ((Fin 0, Fin 0), []) \<and>
   sem_cva sample_env (Fin 0) (Fin (- 3)) [] = Some (NaN, [(''mathieu_b'', SF_ERROR_DOMAIN)])"
  using sem_order_zero [of sample_env "Fin (- 3)" PInf "[]"]
  by (simp add: fp_of_int_def)

section \<open>Negative parameter of the modified functions\<close>

text \<open>
  Claim C10. For every negative \<open>q\<close>, whatever the order and the argument, each of
  \<open>mcm1\<close>, \<open>msm1\<close>, \<open>mcm2\<close> and \<open>msm2\<close> sets both outputs to NaN and signals one domain
  error under its own name. The outcome does not depend on the routines: nothing is
  evaluated at \<open>-q\<close>.
\<close>

theorem radial_negative_q:
  assumes "flt q (fp_of_int 0)"
  shows "mcm1 e m q x s = Some ((NaN, NaN), s @ [(''mathieu_modcem1'', SF_ERROR_DOMAIN)]) \<and>
         msm1 e m q x s = Some ((NaN, NaN), s @ [(''mathieu_modsem1'', SF_ERROR_DOMAIN)]) \<and>
         mcm2 e m q x s = Some ((NaN, NaN), s @ [(''mathieu_modcem2'', SF_ERROR_DOMAIN)]) \<and>
         msm2 e m q x s = Some ((NaN, NaN), s @ [(''mathieu_modsem2'', SF_ERROR_DOMAIN)])"
  using assms by (simp add: mcm1_def msm1_def mcm2_def msm2_def set_error_def)


theorem radial_negative_q_witness:
  "flt (Fin (- 1)) (fp_of_int 0) \<and>
   mcm1 sample_env (fp_of_int 2) (Fin (- 1)) (Fin 1) [] =
     Some ((NaN, NaN), [(''mathieu_modcem1'', SF_ERROR_DOMAIN)]) \<and>
   msm2 sample_env (fp_of_int 2) (Fin (- 1)) (Fin 1) [] =
     Some ((NaN, NaN), [(''mathieu_modsem2'', SF_ERROR_DOMAIN)])"
  using radial_negative_q [of "Fin (- 1)" sample_env "fp_of_int 2" "Fin 1" "[]"]
  by (simp add: fp_of_int_def)

section \<open>Failure of the numerical routine\<close>

lemma cem_direct:
  assumes "0 \<le> n" "n \<le> INT_MAX" "\<not> flt q (fp_of_int 0)"
  shows "cem e (fp_of_int n) q x s =
     (case mtu0 e 1 n q x of (status, csf, csd) \<Rightarrow>
        if status \<noteq> OK
        then Some ((NaN, NaN), s @ [(''mathieu_cem'',
               if status = NoMemory then SF_ERROR_MEMORY else SF_ERROR_OTHER)])
        else Some ((csf, csd), s))"
  using assms
  by (subst cem.simps) (simp add: order_simps INT_MIN_def set_error_def split: prod.splits)

lemma sem_direct:
  assumes "0 < n" "n \<le> INT_MAX" "\<not> flt q (fp_of_int 0)"
  shows "sem e (fp_of_int n) q x s =
     (case mtu0 e 2 n q x of (status, csf, csd) \<Rightarrow>
        if status \<noteq> OK
        then Some ((NaN, NaN), s @ [(''mathieu_sem'',
               if status = NoMemory then SF_ERROR_MEMORY else SF_ERROR_OTHER)])
        else Some ((csf, csd), s))"
  using assms
  by (subst sem.simps) (simp add: order_simps INT_MIN_def set_error_def split: prod.splits)

lemma fneg_not_neg: "flt q (fp_of_int 0) \<Longrightarrow> \<not> flt (fneg q) (fp_of_int 0)"
  by (cases q) (simp_all add: fp_of_int_def)

lemma cem_reflected_failure:
  assumes "0 \<le> n" "n \<le> INT_MAX" "flt q (fp_of_int 0)"
    and "fst (mtu0 e (if even n then 1 else 2) n (fneg q) (fsub (rnd e) (fp_of_int 90) x)) \<noteq> OK"
  shows "cem e (fp_of_int n) q x s =
     Some ((NaN, NaN), s @ [(if even n then ''mathieu_cem'' else ''mathieu_sem'',
       if fst (mtu0 e (if even n then 1 else 2) n (fneg q) (fsub (rnd e) (fp_of_int 90) x)) = NoMemory
       then SF_ERROR_MEMORY else SF_ERROR_OTHER)])"
proof -
  have pos: "0 < n" if "odd n" using that assms(1) by (cases "n = 0") auto
  from assms(1-3) have "cem e (fp_of_int n) q x s =
     map_option (\<lambda>((f, d), s'). ((imul (if (n sdiv 2) smod 2 = 0 then 1 else - 1) f,
                                imul (- (if (n sdiv 2) smod 2 = 0 then 1 else - 1)) d), s'))
       (if n smod 2 = 0 then cem e (fp_of_int n) (fneg q) (fsub (rnd e) (fp_of_int 90) x) s
        else sem e (fp_of_int n) (fneg q) (fsub (rnd e) (fp_of_int 90) x) s)"
    by (intro cem_reflect) (simp_all add: order_simps INT_MIN_def)
  with assms pos show ?thesis
    by (cases "even n")
       (auto simp add: smod2_even cem_direct sem_direct fneg_not_neg split: prod.splits)
qed

lemma sem_reflected_failure:
  assumes "0 < n" "n \<le> INT_MAX" "flt q (fp_of_int 0)"
    and "fst (mtu0 e (if even n then 2 else 1) n (fneg q) (fsub (rnd e) (fp_of_int 90) x)) \<noteq> OK"
  shows "sem e (fp_of_int n) q x s =
     Some ((NaN, NaN), s @ [(if even n then ''mathieu_sem'' else ''mathieu_cem'',
       if fst (mtu0 e (if even n then 2 else 1) n (fneg q) (fsub (rnd e) (fp_of_int 90) x)) = NoMemory
       then SF_ERROR_MEMORY else SF_ERROR_OTHER)])"
proof -
  from assms(1-3) have "sem e (fp_of_int n) q x s =
     map_option (\<lambda>((f, d), s').
         ((imul (if n smod 2 = 0 then (if (n sdiv 2) smod 2 = 0 then - 1 else 1)
                 else (if (n sdiv 2) smod 2 = 0 then 1 else - 1)) f,
           imul (- (if n smod 2 = 0 then (if (n sdiv 2) smod 2 = 0 then - 1 else 1)
                 else (if (n sdiv 2) smod 2 = 0 then 1 else - 1))) d), s'))
       (if n smod 2 = 0 then sem e (fp_of_int n) (fneg q) (fsub (rnd e) (fp_of_int 90) x) s
        else cem e (fp_of_int n) (fneg q) (fsub (rnd e) (fp_of_int 90) x) s)"
    by (intro sem_reflect) (simp_all add: order_simps INT_MIN_def)
  with assms show ?thesis
    by (cases "even n")
       (auto simp add: smod2_even cem_direct sem_direct fneg_not_neg split: prod.splits)
qed

text \<open>
  Claim C4. Let the order be an integer \<open>n\<close> that fits an int and passes the domain
  check. When the routine the evaluator calls (\<open>mtu0\<close> for \<open>cem\<close> and \<open>sem\<close>, \<open>mtu12\<close>
  for \<open>mcm1\<close>, \<open>msm1\<close>, \<open>mcm2\<close>, \<open>msm2\<close>) returns a status other than \<open>OK\<close>, both
  outputs are NaN and the log grows by exactly one error, of kind
  \<open>SF_ERROR_MEMORY\<close> for the status \<open>NoMemory\<close> and \<open>SF_ERROR_OTHER\<close> for any other.
  The last two parts are the calls of \<open>cem\<close> and \<open>sem\<close> at a negative \<open>q\<close>, where the
  routine is called by the reflected evaluator, which signals the error.
\<close>

theorem routine_failure:
  fixes n :: int
  assumes "n \<le> INT_MAX"
  shows "(0 \<le> n \<and> \<not> flt q (fp_of_int 0) \<and> fst (mtu0 e 1 n q x) \<noteq> OK \<longrightarrow>
            cem e (fp_of_int n) q x s =
              Some ((NaN, NaN), s @ [(''mathieu_cem'',
                if fst (mtu0 e 1 n q x) = NoMemory then SF_ERROR_MEMORY else SF_ERROR_OTHER)])) \<and>
         (0 < n \<and> \<not> flt q (fp_of_int 0) \<and> fst (mtu0 e 2 n q x) \<noteq> OK \<longrightarrow>
            sem e (fp_of_int n) q x s =
              Some ((NaN, NaN), s @ [(''mathieu_sem'',
                if fst (mtu0 e 2 n q x) = NoMemory then SF_ERROR_MEMORY else SF_ERROR_OTHER)])) \<and>
         (0 \<le> n \<and> \<not> flt q (fp_of_int 0) \<and> fst (mtu12 e 1 1 n q x) \<noteq> OK \<longrightarrow>
            mcm1 e (fp_of_int n) q x s =
              Some ((NaN, NaN), s @ [(''mathieu_modcem1'',
                if fst (mtu12 e 1 1 n q x) = NoMemory then SF_ERROR_MEMORY else SF_ERROR_OTHER)])) \<and>
         (0 < n \<and> \<not> flt q (fp_of_int 0) \<and> fst (mtu12 e 2 1 n q x) \<noteq> OK \<longrightarrow>
            msm1 e (fp_of_int n) q x s =
              Some ((NaN, NaN), s @ [(''mathieu_modsem1'',
                if fst (mtu12 e 2 1 n q x) = NoMemory then SF_ERROR_MEMORY else SF_ERROR_OTHER)])) \<and>
         (0 \<le> n \<and> \<not> flt q (fp_of_int 0) \<and> fst (mtu12 e 1 2 n q x) \<noteq> OK \<longrightarrow>
            mcm2 e (fp_of_int n) q x s =
              Some ((NaN, NaN), s @ [(''mathieu_modcem2'',
                if fst (mtu12 e 1 2 n q x) = NoMemory then SF_ERROR_MEMORY else SF_ERROR_OTHER)])) \<and>
         (0 < n \<and> \<not> flt q (fp_of_int 0) \<and> fst (mtu12 e 2 2 n q x) \<noteq> OK \<longrightarrow>
            msm2 e (fp_of_int n) q x s =
              Some ((NaN, NaN), s @ [(''mathieu_modsem2'',
                if fst (mtu12 e 2 2 n q x) = NoMemory then SF_ERROR_MEMORY else SF_ERROR_OTHER)])) \<and>
         (0 \<le> n \<and> flt q (fp_of_int 0) \<and>
          fst (mtu0 e (if even n then 1 else 2) n (fneg q) (fsub (rnd e) (fp_of_int 90) x)) \<noteq> OK \<longrightarrow>
            cem e (fp_of_int n) q x s =
              Some ((NaN, NaN), s @ [(if even n then ''mathieu_cem'' else ''mathieu_sem'',
                if fst (mtu0 e (if even n then 1 else 2) n (fneg q)
                         (fsub (rnd e) (fp_of_int 90) x)) = NoMemory
                then SF_ERROR_MEMORY else SF_ERROR_OTHER)])) \<and>
         (0 < n \<and> flt q (fp_of_int 0) \<and>
          fst (mtu0 e (if even n then 2 else 1) n (fneg q) (fsub (rnd e) (fp_of_int 90) x)) \<noteq> OK \<longrightarrow>
            sem e (fp_of_int n) q x s =
              Some ((NaN, NaN), s @ [(if even n then ''mathieu_sem'' else ''mathieu_cem'',
                if fst (mtu0 e (if even n then 2 else 1) n (fneg q)
                         (fsub (rnd e) (fp_of_int 90) x)) = NoMemory
                then SF_ERROR_MEMORY else SF_ERROR_OTHER)]))"
proof (intro conjI impI; elim conjE)
  assume "0 \<le> n" "\<not> flt q (fp_of_int 0)" "fst (mtu0 e 1 n q x) \<noteq> OK"
  with assms show "cem e (fp_of_int n) q x s =
              Some ((NaN, NaN), s @ [(''mathieu_cem'',
                if fst (mtu0 e 1 n q x) = NoMemory then SF_ERROR_MEMORY else SF_ERROR_OTHER)])"
    by (auto simp add: cem_direct split: prod.splits)
next
  assume "0 < n" "\<not> flt q (fp_of_int 0)" "fst (mtu0 e 2 n q x) \<noteq> OK"
  with assms show "sem e (fp_of_int n) q x s =
              Some ((NaN, NaN), s @ [(''mathieu_sem'',
                if fst (mtu0 e 2 n q x) = NoMemory then SF_ERROR_MEMORY else SF_ERROR_OTHER)])"
    by (auto simp add: sem_direct split: prod.splits)
next
  assume "0 \<le> n" "\<not> flt q (fp_of_int 0)" "fst (mtu12 e 1 1 n q x) \<noteq> OK"
  with assms show "mcm1 e (fp_of_int n) q x s =
              Some ((NaN, NaN), s @ [(''mathieu_modcem1'',
                if fst (mtu12 e 1 1 n q x) = NoMemory then SF_ERROR_MEMORY else SF_ERROR_OTHER)])"
    by (auto simp add: mcm1_def order_simps INT_MIN_def set_error_def split: prod.splits)
next
  assume "0 < n" "\<not> flt q (fp_of_int 0)" "fst (mtu12 e 2 1 n q x) \<noteq> OK"
  with assms show "msm1 e (fp_of_int n) q x s =
              Some ((NaN, NaN), s @ [(''mathieu_modsem1'',
                if fst (mtu12 e 2 1 n q x) = NoMemory then SF_ERROR_MEMORY else SF_ERROR_OTHER)])"
    by (auto simp add: msm1_def order_simps INT_MIN_def set_error_def split: prod.splits)
next
  assume "0 \<le> n" "\<not> flt q (fp_of_int 0)" "fst (mtu12 e 1 2 n q x) \<noteq> OK"
  with assms show "mcm2 e (fp_of_int n) q x s =
              Some ((NaN, NaN), s @ [(''mathieu_modcem2'',
                if fst (mtu12 e 1 2 n q x) = NoMemory then SF_ERROR_MEMORY else SF_ERROR_OTHER)])"
    by (auto simp add: mcm2_def order_simps INT_MIN_def set_error_def split: prod.splits)
next
  assume "0 < n" "\<not> flt q (fp_of_int 0)" "fst (mtu12 e 2 2 n q x) \<noteq> OK"
  with assms show "msm2 e (fp_of_int n) q x s =
              Some ((NaN, NaN), s @ [(''mathieu_modsem2'',
                if fst (mtu12 e 2 2 n q x) = NoMemory then SF_ERROR_MEMORY else SF_ERROR_OTHER)])"
    by (auto simp add: msm2_def order_simps INT_MIN_def set_error_def split: prod.splits)
next
  assume a: "0 \<le> n" and b: "flt q (fp_of_int 0)"
    "fst (mtu0 e (if even n then 1 else 2) n (fneg q) (fsub (rnd e) (fp_of_int 90) x)) \<noteq> OK"
  from a assms b show "cem e (fp_of_int n) q x s =
              Some ((NaN, NaN), s @ [(if even n then ''mathieu_cem'' else ''mathieu_sem'',
                if fst (mtu0 e (if even n then 1 else 2) n (fneg q)
                         (fsub (rnd e) (fp_of_int 90) x)) = NoMemory
                then SF_ERROR_MEMORY else SF_ERROR_OTHER)])"
    by (rule cem_reflected_failure)
next
  assume a: "0 < n" and b: "flt q (fp_of_int 0)"
    "fst (mtu0 e (if even n then 2 else 1) n (fneg q) (fsub (rnd e) (fp_of_int 90) x)) \<noteq> OK"
  from a assms b show "sem e (fp_of_int n) q x s =
              Some ((NaN, NaN), s @ [(if even n then ''mathieu_sem'' else ''mathieu_cem'',
                if fst (mtu0 e (if even n then 2 else 1) n (fneg q)
                         (fsub (rnd e) (fp_of_int 90) x)) = NoMemory
                then SF_ERROR_MEMORY else SF_ERROR_OTHER)])"
    by (rule sem_reflected_failure)
qed

theorem routine_failure_witness:
  "(7::int) \<le> INT_MAX \<and> (0::int) \<le> 7 \<and> \<not> flt (Fin 1) (fp_of_int 0) \<and>
   fst (mtu0 sample_env 1 7 (Fin 1) (Fin 0)) = NoMemory \<and>
   cem sample_env (fp_of_int 7) (Fin 1) (Fin 0) [] =
     Some ((NaN, NaN), [(''mathieu_cem'', SF_ERROR_MEMORY)]) \<and>
   fst (mtu12 sample_env 2 2 9 (Fin 1) (Fin 0)) = OtherStatus 0 \<and>
   msm2 sample_env (fp_of_int 9) (Fin 1) (Fin 0) [] =
     Some ((NaN, NaN), [(''mathieu_modsem2'', SF_ERROR_OTHER)])"
  using routine_failure [of 7 "Fin 1" sample_env "Fin 0" "[]"]
    routine_failure [of 9 "Fin 1" sample_env "Fin 0" "[]"]
  by (simp add: eval_simps)

section \<open>The domain check and the conversion of the order\<close>

text \<open>
  The domain check of \<open>cem_cva\<close> rejects NaN, minus infinity, every negative number and
  every finite number that is not an integer; that of \<open>sem_cva\<close> rejects zero as well.
\<close>

lemma cva_domain_error:
  assumes "m = NaN \<or> m = NInf \<or> (\<exists>r. m = Fin r \<and> (r < 0 \<or> of_int \<lfloor>r\<rfloor> \<noteq> r))"
  shows "cem_cva e m q s = Some (NaN, s @ [(''mathieu_a'', SF_ERROR_DOMAIN)])"
    and "sem_cva e m q s = Some (NaN, s @ [(''mathieu_b'', SF_ERROR_DOMAIN)])"
  using assms
  by (auto simp: cem_cva.simps sem_cva.simps fp_of_int_def fne_def fle_def set_error_def)

text \<open>
  Claim C3 says that every order that is not an integer is rejected with a domain error
  and a NaN result. Plus infinity is not an integer, and it passes the check: it is not
  below zero, and \<open>floor\<close> returns it unchanged, so it equals its floor. The order is
  then converted to int, which is undefined for an infinity; no domain error is
  signalled and no NaN is returned.
\<close>

theorem cva_infinite_order:
  "cem_cva e PInf q s = None \<and> sem_cva e PInf q s = None"
  by (simp add: cem_cva.simps sem_cva.simps fp_of_int_def fne_def fle_def)

section \<open>Evaluation at a negative and at a non-negative parameter\<close>

lemma cem_cva_nonneg:
  "\<not> flt q (fp_of_int 0) \<Longrightarrow>
   cem_cva e m q s =
     (if flt m (fp_of_int 0) \<or> fne m (floor_fp m)
      then Some (NaN, s @ [(''mathieu_a'', SF_ERROR_DOMAIN)])
      else case cast_int m of None \<Rightarrow> None
        | Some k \<Rightarrow> Some (cva2 e (if k smod 2 \<noteq> 0 then 2 else 1) k q, s))"
  by (subst cem_cva.simps) (simp add: set_error_def split: option.splits)

lemma sem_cva_nonneg:
  "\<not> flt q (fp_of_int 0) \<Longrightarrow>
   sem_cva e m q s =
     (if fle m (fp_of_int 0) \<or> fne m (floor_fp m)
      then Some (NaN, s @ [(''mathieu_b'', SF_ERROR_DOMAIN)])
      else case cast_int m of None \<Rightarrow> None
        | Some k \<Rightarrow> Some (cva2 e (if k smod 2 \<noteq> 0 then 3 else 4) k q, s))"
  by (subst sem_cva.simps) (simp add: set_error_def split: option.splits)

lemma cem_cva_neg:
  "flt q (fp_of_int 0) \<Longrightarrow>
   cem_cva e m q s =
     (if flt m (fp_of_int 0) \<or> fne m (floor_fp m)
      then Some (NaN, s @ [(''mathieu_a'', SF_ERROR_DOMAIN)])
      else case cast_int m of None \<Rightarrow> None
        | Some k \<Rightarrow> if k smod 2 = 0 then cem_cva e m (fneg q) s else sem_cva e m (fneg q) s)"
  by (subst cem_cva.simps) (simp add: set_error_def split: option.splits)

lemma sem_cva_neg:
  "flt q (fp_of_int 0) \<Longrightarrow>
   sem_cva e m q s =
     (if fle m (fp_of_int 0) \<or> fne m (floor_fp m)
      then Some (NaN, s @ [(''mathieu_b'', SF_ERROR_DOMAIN)])
      else case cast_int m of None \<Rightarrow> None
        | Some k \<Rightarrow> if k smod 2 = 0 then sem_cva e m (fneg q) s else cem_cva e m (fneg q) s)"
  by (subst sem_cva.simps) (simp add: set_error_def split: option.splits)

lemma cem_nonneg:
  "\<not> flt q (fp_of_int 0) \<Longrightarrow>
   cem e m q x s =
     (if flt m (fp_of_int 0) \<or> fne m (floor_fp m)
      then Some ((NaN, NaN), s @ [(''mathieu_cem'', SF_ERROR_DOMAIN)])
      else case cast_int m of None \<Rightarrow> None
        | Some k \<Rightarrow>
            (case mtu0 e 1 k q x of (status, csf, csd) \<Rightarrow>
               if status \<noteq> OK
               then Some ((NaN, NaN), s @ [(''mathieu_cem'',
                      if status = NoMemory then SF_ERROR_MEMORY else SF_ERROR_OTHER)])
               else Some ((csf, csd), s)))"
  by (subst cem.simps) (simp add: set_error_def split: option.splits prod.splits)

lemma sem_nonneg:
  "\<not> flt q (fp_of_int 0) \<Longrightarrow>
   sem e m q x s =
     (if flt m (fp_of_int 0) \<or> fne m (floor_fp m)
      then Some ((NaN, NaN), s @ [(''mathieu_sem'', SF_ERROR_DOMAIN)])
      else case cast_int m of None \<Rightarrow> None
        | Some k \<Rightarrow>
            if k = 0 then Some ((fp_of_int 0, fp_of_int 0), s)
            else (case mtu0 e 2 k q x of (status, csf, csd) \<Rightarrow>
               if status \<noteq> OK
               then Some ((NaN, NaN), s @ [(''mathieu_sem'',
                      if status = NoMemory then SF_ERROR_MEMORY else SF_ERROR_OTHER)])
               else Some ((csf, csd), s)))"
  by (subst sem.simps) (simp add: set_error_def split: option.splits prod.splits)

lemma cem_neg:
  "flt q (fp_of_int 0) \<Longrightarrow>
   cem e m q x s =
     (if flt m (fp_of_int 0) \<or> fne m (floor_fp m)
      then Some ((NaN, NaN), s @ [(''mathieu_cem'', SF_ERROR_DOMAIN)])
      else case cast_int m of None \<Rightarrow> None
        | Some k \<Rightarrow>
            map_option (\<lambda>((f, d), s'). ((imul (if (k sdiv 2) smod 2 = 0 then 1 else - 1) f,
                                imul (- (if (k sdiv 2) smod 2 = 0 then 1 else - 1)) d), s'))
              (if k smod 2 = 0 then cem e m (fneg q) (fsub (rnd e) (fp_of_int 90) x) s
               else sem e m (fneg q) (fsub (rnd e) (fp_of_int 90) x) s))"
  by (subst cem.simps) (simp add: set_error_def split: option.splits prod.splits)

lemma sem_neg:
  "flt q (fp_of_int 0) \<Longrightarrow>
   sem e m q x s =
     (if flt m (fp_of_int 0) \<or> fne m (floor_fp m)
      then Some ((NaN, NaN), s @ [(''mathieu_sem'', SF_ERROR_DOMAIN)])
      else case cast_int m of None \<Rightarrow> None
        | Some k \<Rightarrow>
            if k = 0 then Some ((fp_of_int 0, fp_of_int 0), s)
            else map_option (\<lambda>((f, d), s').
               ((imul (if k smod 2 = 0 then (if (k sdiv 2) smod 2 = 0 then - 1 else 1)
                       else (if (k sdiv 2) smod 2 = 0 then 1 else - 1)) f,
                 imul (- (if k smod 2 = 0 then (if (k sdiv 2) smod 2 = 0 then - 1 else 1)
                       else (if (k sdiv 2) smod 2 = 0 then 1 else - 1))) d), s'))
              (if k smod 2 = 0 then sem e m (fneg q) (fsub (rnd e) (fp_of_int 90) x) s
               else cem e m (fneg q) (fsub (rnd e) (fp_of_int 90) x) s))"
  by (subst sem.simps) (simp add: set_error_def split: option.splits prod.splits)

section \<open>Defined outcomes and error paths\<close>

text \<open>
  An entry point has no defined outcome exactly when the order passes the domain check
  and its conversion to int is undefined. Whenever it returns, either nothing was
  signalled, or exactly one error was signalled and every output is NaN.
\<close>

lemma cva_undefined_iff:
  "cem_cva e m q s = None \<longleftrightarrow>
     \<not> flt m (fp_of_int 0) \<and> \<not> fne m (floor_fp m) \<and> cast_int m = None"
  "sem_cva e m q s = None \<longleftrightarrow>
     \<not> fle m (fp_of_int 0) \<and> \<not> fne m (floor_fp m) \<and> cast_int m = None"
proof -
  show "cem_cva e m q s = None \<longleftrightarrow>
     \<not> flt m (fp_of_int 0) \<and> \<not> fne m (floor_fp m) \<and> cast_int m = None"
  proof (cases "flt q (fp_of_int 0)")
    case True
    then show ?thesis
      by (simp add: cem_cva_neg cem_cva_nonneg sem_cva_nonneg fneg_not_neg split: option.splits)
  next
    case False
    then show ?thesis by (simp add: cem_cva_nonneg split: option.splits)
  qed
  show "sem_cva e m q s = None \<longleftrightarrow>
     \<not> fle m (fp_of_int 0) \<and> \<not> fne m (floor_fp m) \<and> cast_int m = None"
  proof (cases "flt q (fp_of_int 0)")
    case True
    then show ?thesis
      by (simp add: sem_cva_neg cem_cva_nonneg sem_cva_nonneg fneg_not_neg split: option.splits)
  next
    case False
    then show ?thesis by (simp add: sem_cva_nonneg split: option.splits)
  qed
qed


lemma radial_undefined_iff:
  "mcm1 e m q x s = None \<longleftrightarrow>
     \<not> flt m (fp_of_int 0) \<and> \<not> fne m (floor_fp m) \<and> \<not> flt q (fp_of_int 0) \<and> cast_int m = None"
  "msm1 e m q x s = None \<longleftrightarrow>
     \<not> flt m (fp_of_int 1) \<and> \<not> fne m (floor_fp m) \<and> \<not> flt q (fp_of_int 0) \<and> cast_int m = None"
  "mcm2 e m q x s = None \<longleftrightarrow>
     \<not> flt m (fp_of_int 0) \<and> \<not> fne m (floor_fp m) \<and> \<not> flt q (fp_of_int 0) \<and> cast_int m = None"
  "msm2 e m q x s = None \<longleftrightarrow>
     \<not> flt m (fp_of_int 1) \<and> \<not> fne m (floor_fp m) \<and> \<not> flt q (fp_of_int 0) \<and> cast_int m = None"
  by (auto simp: mcm1_def msm1_def mcm2_def msm2_def split: option.splits prod.splits)

lemma cva_error_is_nan:
  "cem_cva e m q s = Some (v, s') \<Longrightarrow>
     s' = s \<or> (v = NaN \<and> (\<exists>name kind. s' = s @ [(name, kind)]))"
  "sem_cva e m q s = Some (v, s') \<Longrightarrow>
     s' = s \<or> (v = NaN \<and> (\<exists>name kind. s' = s @ [(name, kind)]))"
proof -
  have direct: "s' = s \<or> (v = NaN \<and> (\<exists>name kind. s' = s @ [(name, kind)]))"
    if "\<not> flt q' (fp_of_int 0)"
      "cem_cva e m q' s = Some (v, s') \<or> sem_cva e m q' s = Some (v, s')" for q'
    using that
    by (auto simp: cem_cva_nonneg sem_cva_nonneg split: if_splits option.splits)
  show "cem_cva e m q s = Some (v, s') \<Longrightarrow>
     s' = s \<or> (v = NaN \<and> (\<exists>name kind. s' = s @ [(name, kind)]))"
    using direct [of q] direct [of "fneg q"]
    by (cases "flt q (fp_of_int 0)")
       (auto simp: cem_cva_neg fneg_not_neg split: if_splits option.splits)
  show "sem_cva e m q s = Some (v, s') \<Longrightarrow>
     s' = s \<or> (v = NaN \<and> (\<exists>name kind. s' = s @ [(name, kind)]))"
    using direct [of q] direct [of "fneg q"]
    by (cases "flt q (fp_of_int 0)")
       (auto simp: sem_cva_neg fneg_not_neg split: if_splits option.splits)
qed

lemma reflected_error_is_nan:
  assumes "\<forall>f d s'. r = Some ((f, d), s') \<longrightarrow>
      s' = s \<or> (f = NaN \<and> d = NaN \<and> (\<exists>name kind. s' = s @ [(name, kind)]))"
    and "map_option (\<lambda>((f, d), s'). ((imul a f, imul b d), s')) r = Some ((f, d), s')"
  shows "s' = s \<or> (f = NaN \<and> d = NaN \<and> (\<exists>name kind. s' = s @ [(name, kind)]))"
proof (cases r)
  case None
  with assms(2) show ?thesis by simp
next
  case (Some p)
  obtain f0 d0 s0 where p: "p = ((f0, d0), s0)" by (cases p) auto
  with Some assms(2) have eq: "f = imul a f0" "d = imul b d0" "s' = s0" by simp_all
  from assms(1) Some p have
    "s0 = s \<or> (f0 = NaN \<and> d0 = NaN \<and> (\<exists>name kind. s0 = s @ [(name, kind)]))" by simp
  with eq show ?thesis by auto
qed

lemma ang_error_is_nan_nonneg:
  assumes "\<not> flt q (fp_of_int 0)"
  shows "\<forall>f d s'. cem e m q x s = Some ((f, d), s') \<longrightarrow>
      s' = s \<or> (f = NaN \<and> d = NaN \<and> (\<exists>name kind. s' = s @ [(name, kind)]))"
    and "\<forall>f d s'. sem e m q x s = Some ((f, d), s') \<longrightarrow>
      s' = s \<or> (f = NaN \<and> d = NaN \<and> (\<exists>name kind. s' = s @ [(name, kind)]))"
  using assms
  by (auto simp: cem_nonneg sem_nonneg split: if_splits option.splits prod.splits)

lemma ang_error_is_nan:
  "cem e m q x s = Some ((f, d), s') \<Longrightarrow>
     s' = s \<or> (f = NaN \<and> d = NaN \<and> (\<exists>name kind. s' = s @ [(name, kind)]))"
  "sem e m q x s = Some ((f, d), s') \<Longrightarrow>
     s' = s \<or> (f = NaN \<and> d = NaN \<and> (\<exists>name kind. s' = s @ [(name, kind)]))"
proof -
  note callee = ang_error_is_nan_nonneg [of "fneg q" e m "fsub (rnd e) (fp_of_int 90) x" s]
  show "cem e m q x s = Some ((f, d), s') \<Longrightarrow>
     s' = s \<or> (f = NaN \<and> d = NaN \<and> (\<exists>name kind. s' = s @ [(name, kind)]))"
  proof (cases "flt q (fp_of_int 0)")
    case True
    assume r: "cem e m q x s = Some ((f, d), s')"
    show ?thesis
    proof (cases "flt m (fp_of_int 0) \<or> fne m (floor_fp m)")
      case True
      with r \<open>flt q (fp_of_int 0)\<close> show ?thesis by (auto simp add: cem_neg)
    next
      case False
      with r \<open>flt q (fp_of_int 0)\<close> obtain k where k: "cast_int m = Some k"
        by (cases "cast_int m") (simp_all add: cem_neg)
      show ?thesis
      proof (cases "k smod 2 = 0")
        case True
        with r False k \<open>flt q (fp_of_int 0)\<close> show ?thesis
          using reflected_error_is_nan [OF callee(1) [OF fneg_not_neg]]
          by (simp add: cem_neg)
      next
        case odd: False
        with r False k \<open>flt q (fp_of_int 0)\<close> show ?thesis
          using reflected_error_is_nan [OF callee(2) [OF fneg_not_neg]]
          by (simp add: cem_neg)
      qed
    qed
  next
    case False
    assume "cem e m q x s = Some ((f, d), s')"
    with ang_error_is_nan_nonneg(1) [OF False] show ?thesis by simp
  qed
  show "sem e m q x s = Some ((f, d), s') \<Longrightarrow>
     s' = s \<or> (f = NaN \<and> d = NaN \<and> (\<exists>name kind. s' = s @ [(name, kind)]))"
  proof (cases "flt q (fp_of_int 0)")
    case True
    assume r: "sem e m q x s = Some ((f, d), s')"
    show ?thesis
    proof (cases "flt m (fp_of_int 0) \<or> fne m (floor_fp m)")
      case True
      with r \<open>flt q (fp_of_int 0)\<close> show ?thesis by (auto simp add: sem_neg)
    next
      case False
      with r \<open>flt q (fp_of_int 0)\<close> obtain k where k: "cast_int m = Some k"
        by (cases "cast_int m") (simp_all add: sem_neg)
      show ?thesis
      proof (cases "k = 0")
        case True
        with r False k \<open>flt q (fp_of_int 0)\<close> show ?thesis by (simp add: sem_neg)
      next
        case nz: False
        show ?thesis
        proof (cases "k smod 2 = 0")
          case True
          with r False k nz \<open>flt q (fp_of_int 0)\<close> show ?thesis
            using reflected_error_is_nan [OF callee(2) [OF fneg_not_neg]]
            by (simp add: sem_neg)
        next
          case odd: False
          with r False k nz \<open>flt q (fp_of_int 0)\<close> show ?thesis
            using reflected_error_is_nan [OF callee(1) [OF fneg_not_neg]]
            by (simp add: sem_neg)
        qed
      qed
    qed
  next
    case False
    assume "sem e m q x s = Some ((f, d), s')"
    with ang_error_is_nan_nonneg(2) [OF False] show ?thesis by simp
  qed
qed

lemma radial_error_is_nan:
  "mcm1 e m q x s = Some ((f, d), s') \<Longrightarrow>
     s' = s \<or> (f = NaN \<and> d = NaN \<and> (\<exists>name kind. s' = s @ [(name, kind)]))"
  "msm1 e m q x s = Some ((f, d), s') \<Longrightarrow>
     s' = s \<or> (f = NaN \<and> d = NaN \<and> (\<exists>name kind. s' = s @ [(name, kind)]))"
  "mcm2 e m q x s = Some ((f, d), s') \<Longrightarrow>
     s' = s \<or> (f = NaN \<and> d = NaN \<and> (\<exists>name kind. s' = s @ [(name, kind)]))"
  "msm2 e m q x s = Some ((f, d), s') \<Longrightarrow>
     s' = s \<or> (f = NaN \<and> d = NaN \<and> (\<exists>name kind. s' = s @ [(name, kind)]))"
proof -
  show "mcm1 e m q x s = Some ((f, d), s') \<Longrightarrow>
     s' = s \<or> (f = NaN \<and> d = NaN \<and> (\<exists>name kind. s' = s @ [(name, kind)]))"
    by (auto simp: mcm1_def set_error_def split: if_splits option.splits prod.splits)
  show "msm1 e m q x s = Some ((f, d), s') \<Longrightarrow>
     s' = s \<or> (f = NaN \<and> d = NaN \<and> (\<exists>name kind. s' = s @ [(name, kind)]))"
    by (auto simp: msm1_def set_error_def split: if_splits option.splits prod.splits)
  show "mcm2 e m q x s = Some ((f, d), s') \<Longrightarrow>
     s' = s \<or> (f = NaN \<and> d = NaN \<and> (\<exists>name kind. s' = s @ [(name, kind)]))"
    by (auto simp: mcm2_def set_error_def split: if_splits option.splits prod.splits)
  show "msm2 e m q x s = Some ((f, d), s') \<Longrightarrow>
     s' = s \<or> (f = NaN \<and> d = NaN \<and> (\<exists>name kind. s' = s @ [(name, kind)]))"
    by (auto simp: msm2_def set_error_def split: if_splits option.splits prod.splits)
qed

text \<open>
  Claim C6 says that every entry point returns normally on every input, with NaN and a
  reported error on each error path. At the order plus infinity, and at an integer
  order beyond the range of int (here \<open>2^31\<close>), the domain check passes and the
  conversion of the order to int is undefined: none of the eight entry points has a
  defined outcome there.
\<close>

theorem entry_points_undefined:
  "cem_cva e PInf (Fin 1) s = None \<and> sem_cva e PInf (Fin 1) s = None \<and>
   cem e PInf (Fin 1) x s = None \<and> sem e PInf (Fin 1) x s = None \<and>
   mcm1 e PInf (Fin 1) x s = None \<and> msm1 e PInf (Fin 1) x s = None \<and>
   mcm2 e PInf (Fin 1) x s = None \<and> msm2 e PInf (Fin 1) x s = None \<and>
   cem e (fp_of_int 2147483648) (Fin 1) x s = None"
  by (simp add: cem_cva.simps sem_cva.simps cem.simps sem.simps mcm1_def msm1_def mcm2_def
      msm2_def fp_of_int_def fne_def fle_def trunc_def INT_MAX_def INT_MIN_def)

section \<open>Termination of the reflection\<close>

text \<open>
  \<open>cem_cva_sem_cva_rel callee caller\<close> and \<open>cem_sem_rel callee caller\<close> are the call
  relations of the two pairs of mutually recursive functions: they hold exactly for the
  recursive calls the definitions make, under the conditions that guard them. \<open>Inl\<close>
  marks a call of \<open>cem_cva\<close> (of \<open>cem\<close>), \<open>Inr\<close> a call of \<open>sem_cva\<close> (of \<open>sem\<close>).
\<close>

lemma neg_is_pos: "flt q (fp_of_int 0) \<Longrightarrow> flt (fp_of_int 0) (fneg q)"
  by (cases q) (simp_all add: fp_of_int_def)

lemma cva_rel_neg:
  "cem_cva_sem_cva_rel b a \<Longrightarrow>
   \<exists>e m q s. (a = Inl (e, m, q, s) \<or> a = Inr (e, m, q, s)) \<and> flt q (fp_of_int 0) \<and>
     (b = Inl (e, m, fneg q, s) \<or> b = Inr (e, m, fneg q, s))"
  by (erule cem_cva_sem_cva_rel.cases) simp_all

lemma cva_rel_depth:
  assumes "cem_cva_sem_cva_rel b a"
  shows "\<not> cem_cva_sem_cva_rel c b"
proof
  assume "cem_cva_sem_cva_rel c b"
  from cva_rel_neg [OF this] obtain e' m' q' s' where
    c: "b = Inl (e', m', q', s') \<or> b = Inr (e', m', q', s')" "flt q' (fp_of_int 0)"
    by blast
  from cva_rel_neg [OF assms] obtain e m q s where
    b: "flt q (fp_of_int 0)" "b = Inl (e, m, fneg q, s) \<or> b = Inr (e, m, fneg q, s)"
    by blast
  from b c have "q' = fneg q" by auto
  with b(1) c(2) show False by (simp add: fneg_not_neg)
qed

lemma ang_rel_neg:
  "cem_sem_rel b a \<Longrightarrow>
   \<exists>e m q x s. (a = Inl (e, m, q, x, s) \<or> a = Inr (e, m, q, x, s)) \<and> flt q (fp_of_int 0) \<and>
     (b = Inl (e, m, fneg q, fsub (rnd e) (fp_of_int 90) x, s) \<or>
      b = Inr (e, m, fneg q, fsub (rnd e) (fp_of_int 90) x, s))"
  by (erule cem_sem_rel.cases) simp_all

lemma ang_rel_depth:
  assumes "cem_sem_rel b a"
  shows "\<not> cem_sem_rel c b"
proof
  assume "cem_sem_rel c b"
  from ang_rel_neg [OF this] obtain e' m' q' x' s' where
    c: "b = Inl (e', m', q', x', s') \<or> b = Inr (e', m', q', x', s')" "flt q' (fp_of_int 0)"
    by blast
  from ang_rel_neg [OF assms] obtain e m q x s where
    b: "flt q (fp_of_int 0)"
      "b = Inl (e, m, fneg q, fsub (rnd e) (fp_of_int 90) x, s) \<or>
       b = Inr (e, m, fneg q, fsub (rnd e) (fp_of_int 90) x, s)"
    by blast
  from b c have "q' = fneg q" by auto
  with b(1) c(2) show False by (simp add: fneg_not_neg)
qed

text \<open>
  Claim C8. A negative \<open>q\<close> has a positive negation, which is not negative. Every
  recursive call of \<open>cem_cva\<close>, \<open>sem_cva\<close>, \<open>cem\<close> and \<open>sem\<close> is made by a call whose
  \<open>q\<close> is negative and passes \<open>-q\<close>; the call it makes makes no recursive call itself, so
  the recursion is at most one deep. Every call is in the domain on which the recursion
  terminates, so the four functions are total.
\<close>

theorem reflection_terminates:
  "(flt q (fp_of_int 0) \<longrightarrow> flt (fp_of_int 0) (fneg q) \<and> \<not> flt (fneg q) (fp_of_int 0)) \<and>
   (cem_cva_sem_cva_rel b a \<longrightarrow>
      (\<exists>e m q s. (a = Inl (e, m, q, s) \<or> a = Inr (e, m, q, s)) \<and> flt q (fp_of_int 0) \<and>
         (b = Inl (e, m, fneg q, s) \<or> b = Inr (e, m, fneg q, s))) \<and>
      \<not> cem_cva_sem_cva_rel c b) \<and>
   (cem_sem_rel b' a' \<longrightarrow>
      (\<exists>e m q x s. (a' = Inl (e, m, q, x, s) \<or> a' = Inr (e, m, q, x, s)) \<and>
         flt q (fp_of_int 0) \<and>
         (b' = Inl (e, m, fneg q, fsub (rnd e) (fp_of_int 90) x, s) \<or>
          b' = Inr (e, m, fneg q, fsub (rnd e) (fp_of_int 90) x, s))) \<and>
      \<not> cem_sem_rel c' b') \<and>
   cem_cva_sem_cva_dom a \<and> cem_sem_dom a'"
proof -
  have 1: "flt q (fp_of_int 0) \<longrightarrow> flt (fp_of_int 0) (fneg q) \<and> \<not> flt (fneg q) (fp_of_int 0)"
    by (simp add: neg_is_pos fneg_not_neg)
  have 2: "cem_cva_sem_cva_dom a"
    by (rule accp.intros, rule accp.intros) (simp add: cva_rel_depth)
  have 3: "cem_sem_dom a'"
    by (rule accp.intros, rule accp.intros) (simp add: ang_rel_depth)
  from 1 2 3 show ?thesis
    using cva_rel_neg [of b a] cva_rel_depth [of b a c]
      ang_rel_neg [of b' a'] ang_rel_depth [of b' a' c']
    by blast
qed

theorem reflection_terminates_witness:
  "flt (Fin (- 2)) (fp_of_int 0) \<and> flt (fp_of_int 0) (fneg (Fin (- 2))) \<and>
   cem_cva_sem_cva_rel (Inr (sample_env, fp_of_int 3, Fin 2, []))
     (Inl (sample_env, fp_of_int 3, Fin (- 2), [])) \<and>
   \<not> cem_cva_sem_cva_rel (Inl (sample_env, fp_of_int 3, Fin (- 2), []))
     (Inr (sample_env, fp_of_int 3, Fin 2, [])) \<and>
   cem_sem_rel (Inl (sample_env, fp_of_int 2, Fin 2, Fin 60, []))
     (Inl (sample_env, fp_of_int 2, Fin (- 2), Fin 30, [])) \<and>
   \<not> cem_sem_rel (Inl (sample_env, fp_of_int 2, Fin (- 2), Fin 30, []))
     (Inl (sample_env, fp_of_int 2, Fin 2, Fin 60, []))"
proof -
  have 1: "cem_cva_sem_cva_rel (Inr (sample_env, fp_of_int 3, Fin 2, []))
     (Inl (sample_env, fp_of_int 3, Fin (- 2), []))"
    using cem_cva_sem_cva_rel.intros(2) [of "fp_of_int 3" 3 "Fin (- 2)" sample_env "[]"]
    by (simp add: eval_simps)
  have 2: "cem_sem_rel (Inl (sample_env, fp_of_int 2, Fin 2, Fin 60, []))
     (Inl (sample_env, fp_of_int 2, Fin (- 2), Fin 30, []))"
    using cem_sem_rel.intros(1) [of "fp_of_int 2" 2 "Fin (- 2)" sample_env "Fin 30" "[]"]
    by (simp add: eval_simps)
  from 1 2 show ?thesis
    using reflection_terminates [of "Fin (- 2)"
        "Inr (sample_env, fp_of_int 3, Fin 2, [])" "Inl (sample_env, fp_of_int 3, Fin (- 2), [])"
        "Inl (sample_env, fp_of_int 3, Fin (- 2), [])"
        "Inl (sample_env, fp_of_int 2, Fin 2, Fin 60, [])"
        "Inl (sample_env, fp_of_int 2, Fin (- 2), Fin 30, [])"
        "Inl (sample_env, fp_of_int 2, Fin (- 2), Fin 30, [])"]
    by (simp add: fp_of_int_def sample_simps)
qed

section \<open>Reflection of the characteristic values\<close>




section \<open>Reflection of the angular functions\<close>




section \<open>Verdicts of the validation harness\<close>





end
